theory Spec2Isabelle
  imports Main
begin

section \<open>The instruction factory of pyquil/gates.py\<close>

text \<open>
  The module is a catalogue of constructor functions. Every function hands its qubit and
  classical-register arguments to one of two normalizers imported from
  \<^verbatim>\<open>pyquil.quilatom\<close> (\<^verbatim>\<open>unpack_qubit\<close>, \<^verbatim>\<open>unpack_classical_reg\<close>) and wraps what they
  return in an instruction object of \<^verbatim>\<open>pyquil.quilbase\<close>.

  Python is dynamically typed, so every argument of every constructor, angle or
  designator, is a value of one type \<open>'v\<close>. The two normalizers are not defined in
  gates.py; they are parameters \<open>unpack_qubit\<close> and \<open>unpack_classical_reg\<close> of
  every definition below. A normalizer that raises is a function that returns
  \<open>Inl e\<close>, with \<open>e\<close> the exception raised; the exception type \<open>'e\<close> is left
  open, so that nothing below can depend on what an exception carries.
\<close>

subsection \<open>Data model\<close>

text \<open>
  Modelled from the spec: the instruction classes \<^verbatim>\<open>Gate\<close>, \<^verbatim>\<open>Measurement\<close>,
  \<^verbatim>\<open>Wait\<close>, \<^verbatim>\<open>Reset\<close>, \<^verbatim>\<open>Halt\<close>, \<^verbatim>\<open>Nop\<close>, \<^verbatim>\<open>ClassicalTrue\<close>, \<^verbatim>\<open>ClassicalFalse\<close>,
  \<^verbatim>\<open>ClassicalNot\<close>, \<^verbatim>\<open>ClassicalAnd\<close>, \<^verbatim>\<open>ClassicalOr\<close>, \<^verbatim>\<open>ClassicalMove\<close> and
  \<^verbatim>\<open>ClassicalExchange\<close> are imported from \<^verbatim>\<open>pyquil.quilbase\<close>, which is not part of
  the sources at hand. The data model of the specification gives one variant per class,
  with the fields listed there, in the positional order in which gates.py passes them:
  a measurement holds its qubit and then its optional address, a two-register instruction
  its first and then its second register.
  \<open>'q\<close> is the type of canonical qubit references, \<open>'r\<close> the type of canonical
  classical register references.
\<close>

datatype ('v, 'q, 'r) instruction =
    Gate (name: string) (params: "'v list") (qubits: "'q list")
  | Measurement 'q "'r option"
  | Wait
  | Reset
  | Halt
  | Nop
  | ClassicalTrue 'r
  | ClassicalFalse 'r
  | ClassicalNot 'r
  | ClassicalAnd 'r 'r
  | ClassicalOr 'r 'r
  | ClassicalMove 'r 'r
  | ClassicalExchange 'r 'r

type_synonym ('v, 'q, 'e) qubit_normalizer = "'v \<Rightarrow> 'e + 'q"

type_synonym ('v, 'r, 'e) register_normalizer = "'v \<Rightarrow> 'e + 'r"

subsection \<open>Exceptions and comprehensions\<close>

text \<open>
  \<open>and_then m k\<close> is sequencing in the presence of exceptions: when \<open>m\<close> raised,
  the rest of the function body \<open>k\<close> does not run and the exception leaves the function.
\<close>

definition and_then :: "'e + 'a \<Rightarrow> ('a \<Rightarrow> 'e + 'b) \<Rightarrow> 'e + 'b" where
  "and_then m k = (case m of Inl e \<Rightarrow> Inl e | Inr a \<Rightarrow> k a)"

text \<open>
  The list comprehension \<^verbatim>\<open>[unpack_qubit(q) for q in (a, b, ...)]\<close>: the elements are
  normalized from left to right, and the first exception ends the comprehension.
\<close>

fun comprehension :: "('v \<Rightarrow> 'e + 'q) \<Rightarrow> 'v list \<Rightarrow> 'e + 'q list" where
  "comprehension f [] = Inr []"
| "comprehension f (x # xs) =
     and_then (f x) (\<lambda>y. and_then (comprehension f xs) (\<lambda>ys. Inr (y # ys)))"

subsection \<open>Gate constructors\<close>

definition I :: "('v, 'q, 'e) qubit_normalizer \<Rightarrow> 'v \<Rightarrow> 'e + ('v, 'q, 'r) instruction" where
  "I unpack_qubit qubit =
     and_then (unpack_qubit qubit) (\<lambda>q. Inr (Gate ''I'' [] [q]))"

definition X :: "('v, 'q, 'e) qubit_normalizer \<Rightarrow> 'v \<Rightarrow> 'e + ('v, 'q, 'r) instruction" where
  "X unpack_qubit qubit =
     and_then (unpack_qubit qubit) (\<lambda>q. Inr (Gate ''X'' [] [q]))"

definition Y :: "('v, 'q, 'e) qubit_normalizer \<Rightarrow> 'v \<Rightarrow> 'e + ('v, 'q, 'r) instruction" where
  "Y unpack_qubit qubit =
     and_then (unpack_qubit qubit) (\<lambda>q. Inr (Gate ''Y'' [] [q]))"

definition Z :: "('v, 'q, 'e) qubit_normalizer \<Rightarrow> 'v \<Rightarrow> 'e + ('v, 'q, 'r) instruction" where
  "Z unpack_qubit qubit =
     and_then (unpack_qubit qubit) (\<lambda>q. Inr (Gate ''Z'' [] [q]))"

definition H :: "('v, 'q, 'e) qubit_normalizer \<Rightarrow> 'v \<Rightarrow> 'e + ('v, 'q, 'r) instruction" where
  "H unpack_qubit qubit =
     and_then (unpack_qubit qubit) (\<lambda>q. Inr (Gate ''H'' [] [q]))"

definition S :: "('v, 'q, 'e) qubit_normalizer \<Rightarrow> 'v \<Rightarrow> 'e + ('v, 'q, 'r) instruction" where
  "S unpack_qubit qubit =
     and_then (unpack_qubit qubit) (\<lambda>q. Inr (Gate ''S'' [] [q]))"

definition T :: "('v, 'q, 'e) qubit_normalizer \<Rightarrow> 'v \<Rightarrow> 'e + ('v, 'q, 'r) instruction" where
  "T unpack_qubit qubit =
     and_then (unpack_qubit qubit) (\<lambda>q. Inr (Gate ''T'' [] [q]))"

definition RX :: "('v, 'q, 'e) qubit_normalizer \<Rightarrow> 'v \<Rightarrow> 'v \<Rightarrow> 'e + ('v, 'q, 'r) instruction" where
  "RX unpack_qubit angle qubit =
     and_then (unpack_qubit qubit) (\<lambda>q. Inr (Gate ''RX'' [angle] [q]))"

definition RY :: "('v, 'q, 'e) qubit_normalizer \<Rightarrow> 'v \<Rightarrow> 'v \<Rightarrow> 'e + ('v, 'q, 'r) instruction" where
  "RY unpack_qubit angle qubit =
     and_then (unpack_qubit qubit) (\<lambda>q. Inr (Gate ''RY'' [angle] [q]))"

definition RZ :: "('v, 'q, 'e) qubit_normalizer \<Rightarrow> 'v \<Rightarrow> 'v \<Rightarrow> 'e + ('v, 'q, 'r) instruction" where
  "RZ unpack_qubit angle qubit =
     and_then (unpack_qubit qubit) (\<lambda>q. Inr (Gate ''RZ'' [angle] [q]))"

definition PHASE :: "('v, 'q, 'e) qubit_normalizer \<Rightarrow> 'v \<Rightarrow> 'v \<Rightarrow> 'e + ('v, 'q, 'r) instruction" where
  "PHASE unpack_qubit angle qubit =
     and_then (unpack_qubit qubit) (\<lambda>q. Inr (Gate ''PHASE'' [angle] [q]))"

definition CZ :: "('v, 'q, 'e) qubit_normalizer \<Rightarrow> 'v \<Rightarrow> 'v \<Rightarrow> 'e + ('v, 'q, 'r) instruction" where
  "CZ unpack_qubit control target =
     and_then (comprehension unpack_qubit [control, target]) (\<lambda>qs. Inr (Gate ''CZ'' [] qs))"

definition CNOT :: "('v, 'q, 'e) qubit_normalizer \<Rightarrow> 'v \<Rightarrow> 'v \<Rightarrow> 'e + ('v, 'q, 'r) instruction" where
  "CNOT unpack_qubit control target =
     and_then (comprehension unpack_qubit [control, target]) (\<lambda>qs. Inr (Gate ''CNOT'' [] qs))"

definition CCNOT ::
  "('v, 'q, 'e) qubit_normalizer \<Rightarrow> 'v \<Rightarrow> 'v \<Rightarrow> 'v \<Rightarrow> 'e + ('v, 'q, 'r) instruction" where
  "CCNOT unpack_qubit control1 control2 target =
     and_then (comprehension unpack_qubit [control1, control2, target])
       (\<lambda>qs. Inr (Gate ''CCNOT'' [] qs))"

definition CPHASE00 ::
  "('v, 'q, 'e) qubit_normalizer \<Rightarrow> 'v \<Rightarrow> 'v \<Rightarrow> 'v \<Rightarrow> 'e + ('v, 'q, 'r) instruction" where
  "CPHASE00 unpack_qubit angle control target =
     and_then (comprehension unpack_qubit [control, target])
       (\<lambda>qs. Inr (Gate ''CPHASE00'' [angle] qs))"

definition CPHASE01 ::
  "('v, 'q, 'e) qubit_normalizer \<Rightarrow> 'v \<Rightarrow> 'v \<Rightarrow> 'v \<Rightarrow> 'e + ('v, 'q, 'r) instruction" where
  "CPHASE01 unpack_qubit angle control target =
     and_then (comprehension unpack_qubit [control, target])
       (\<lambda>qs. Inr (Gate ''CPHASE01'' [angle] qs))"

definition CPHASE10 ::
  "('v, 'q, 'e) qubit_normalizer \<Rightarrow> 'v \<Rightarrow> 'v \<Rightarrow> 'v \<Rightarrow> 'e + ('v, 'q, 'r) instruction" where
  "CPHASE10 unpack_qubit angle control target =
     and_then (comprehension unpack_qubit [control, target])
       (\<lambda>qs. Inr (Gate ''CPHASE10'' [angle] qs))"

definition CPHASE ::
  "('v, 'q, 'e) qubit_normalizer \<Rightarrow> 'v \<Rightarrow> 'v \<Rightarrow> 'v \<Rightarrow> 'e + ('v, 'q, 'r) instruction" where
  "CPHASE unpack_qubit angle control target =
     and_then (comprehension unpack_qubit [control, target])
       (\<lambda>qs. Inr (Gate ''CPHASE'' [angle] qs))"

definition SWAP :: "('v, 'q, 'e) qubit_normalizer \<Rightarrow> 'v \<Rightarrow> 'v \<Rightarrow> 'e + ('v, 'q, 'r) instruction" where
  "SWAP unpack_qubit q1 q2 =
     and_then (comprehension unpack_qubit [q1, q2]) (\<lambda>qs. Inr (Gate ''SWAP'' [] qs))"

definition CSWAP ::
  "('v, 'q, 'e) qubit_normalizer \<Rightarrow> 'v \<Rightarrow> 'v \<Rightarrow> 'v \<Rightarrow> 'e + ('v, 'q, 'r) instruction" where
  "CSWAP unpack_qubit control target_1 target_2 =
     and_then (comprehension unpack_qubit [control, target_1, target_2])
       (\<lambda>qs. Inr (Gate ''CSWAP'' [] qs))"

definition ISWAP :: "('v, 'q, 'e) qubit_normalizer \<Rightarrow> 'v \<Rightarrow> 'v \<Rightarrow> 'e + ('v, 'q, 'r) instruction" where
  "ISWAP unpack_qubit q1 q2 =
     and_then (comprehension unpack_qubit [q1, q2]) (\<lambda>qs. Inr (Gate ''ISWAP'' [] qs))"

definition PSWAP ::
  "('v, 'q, 'e) qubit_normalizer \<Rightarrow> 'v \<Rightarrow> 'v \<Rightarrow> 'v \<Rightarrow> 'e + ('v, 'q, 'r) instruction" where
  "PSWAP unpack_qubit angle q1 q2 =
     and_then (comprehension unpack_qubit [q1, q2]) (\<lambda>qs. Inr (Gate ''PSWAP'' [angle] qs))"

subsection \<open>Measurement and classical constructors\<close>

text \<open>
  \<^verbatim>\<open>MEASURE(qubit, classical_reg=None)\<close>: the second argument is an option, \<open>None\<close>
  being Python's \<^verbatim>\<open>None\<close>, passed or defaulted. The qubit is normalized first; the
  register normalizer runs in the \<^verbatim>\<open>else\<close> branch of the conditional expression only.
\<close>

definition MEASURE ::
  "('v, 'q, 'e) qubit_normalizer \<Rightarrow> ('v, 'r, 'e) register_normalizer \<Rightarrow>
   'v \<Rightarrow> 'v option \<Rightarrow> 'e + ('v, 'q, 'r) instruction" where
  "MEASURE unpack_qubit unpack_classical_reg qubit classical_reg =
     and_then (unpack_qubit qubit) (\<lambda>qubit'.
     and_then (case classical_reg of
                 None \<Rightarrow> Inr None
               | Some c \<Rightarrow> and_then (unpack_classical_reg c) (\<lambda>a. Inr (Some a))) (\<lambda>address.
     Inr (Measurement qubit' address)))"

definition TRUE :: "('v, 'r, 'e) register_normalizer \<Rightarrow> 'v \<Rightarrow> 'e + ('v, 'q, 'r) instruction" where
  "TRUE unpack_classical_reg classical_reg =
     and_then (unpack_classical_reg classical_reg) (\<lambda>r. Inr (ClassicalTrue r))"

definition FALSE :: "('v, 'r, 'e) register_normalizer \<Rightarrow> 'v \<Rightarrow> 'e + ('v, 'q, 'r) instruction" where
  "FALSE unpack_classical_reg classical_reg =
     and_then (unpack_classical_reg classical_reg) (\<lambda>r. Inr (ClassicalFalse r))"

definition NOT :: "('v, 'r, 'e) register_normalizer \<Rightarrow> 'v \<Rightarrow> 'e + ('v, 'q, 'r) instruction" where
  "NOT unpack_classical_reg classical_reg =
     and_then (unpack_classical_reg classical_reg) (\<lambda>r. Inr (ClassicalNot r))"

definition AND ::
  "('v, 'r, 'e) register_normalizer \<Rightarrow> 'v \<Rightarrow> 'v \<Rightarrow> 'e + ('v, 'q, 'r) instruction" where
  "AND unpack_classical_reg classical_reg1 classical_reg2 =
     and_then (unpack_classical_reg classical_reg1) (\<lambda>left.
     and_then (unpack_classical_reg classical_reg2) (\<lambda>right.
     Inr (ClassicalAnd left right)))"

definition OR ::
  "('v, 'r, 'e) register_normalizer \<Rightarrow> 'v \<Rightarrow> 'v \<Rightarrow> 'e + ('v, 'q, 'r) instruction" where
  "OR unpack_classical_reg classical_reg1 classical_reg2 =
     and_then (unpack_classical_reg classical_reg1) (\<lambda>left.
     and_then (unpack_classical_reg classical_reg2) (\<lambda>right.
     Inr (ClassicalOr left right)))"

definition MOVE ::
  "('v, 'r, 'e) register_normalizer \<Rightarrow> 'v \<Rightarrow> 'v \<Rightarrow> 'e + ('v, 'q, 'r) instruction" where
  "MOVE unpack_classical_reg classical_reg1 classical_reg2 =
     and_then (unpack_classical_reg classical_reg1) (\<lambda>left.
     and_then (unpack_classical_reg classical_reg2) (\<lambda>right.
     Inr (ClassicalMove left right)))"

definition EXCHANGE ::
  "('v, 'r, 'e) register_normalizer \<Rightarrow> 'v \<Rightarrow> 'v \<Rightarrow> 'e + ('v, 'q, 'r) instruction" where
  "EXCHANGE unpack_classical_reg classical_reg1 classical_reg2 =
     and_then (unpack_classical_reg classical_reg1) (\<lambda>left.
     and_then (unpack_classical_reg classical_reg2) (\<lambda>right.
     Inr (ClassicalExchange left right)))"

subsection \<open>Module state: the singletons and the registry\<close>

text \<open>
  The values of \<^verbatim>\<open>STANDARD_GATES\<close> are Python functions of one, two or three positional
  parameters. \<open>invoke f args\<close> applies such a function to a tuple of positional arguments;
  a tuple of the wrong length gives \<open>None\<close>: the call itself fails, before the body of
  the function runs.
\<close>

datatype ('v, 'x) py_function =
    Fn1 "'v \<Rightarrow> 'x"
  | Fn2 "'v \<Rightarrow> 'v \<Rightarrow> 'x"
  | Fn3 "'v \<Rightarrow> 'v \<Rightarrow> 'v \<Rightarrow> 'x"

fun invoke :: "('v, 'x) py_function \<Rightarrow> 'v list \<Rightarrow> 'x option" where
  "invoke (Fn1 f) [a] = Some (f a)"
| "invoke (Fn2 f) [a, b] = Some (f a b)"
| "invoke (Fn3 f) [a, b, c] = Some (f a b c)"
| "invoke _ _ = None"

text \<open>
  The module-level names bound by assignment: the four singletons and the registry.
\<close>

record ('v, 'q, 'r, 'e) module =
  WAIT :: "('v, 'q, 'r) instruction"
  RESET :: "('v, 'q, 'r) instruction"
  NOP :: "('v, 'q, 'r) instruction"
  HALT :: "('v, 'q, 'r) instruction"
  STANDARD_GATES :: "string \<rightharpoonup> ('v, 'e + ('v, 'q, 'r) instruction) py_function"

text \<open>
  Module initialization runs the assignments of the file from top to bottom. The dict
  display of \<^verbatim>\<open>STANDARD_GATES\<close> is a sequence of updates of the empty map, in the order
  of the source.
\<close>

definition module_init :: "('v, 'q, 'e) qubit_normalizer \<Rightarrow> ('v, 'q, 'r, 'e) module" where
  "module_init unpack_qubit =
     \<lparr> WAIT = Wait,
       RESET = Reset,
       NOP = Nop,
       HALT = Halt,
       STANDARD_GATES =
         [''I'' \<mapsto> Fn1 (I unpack_qubit),
          ''X'' \<mapsto> Fn1 (X unpack_qubit),
          ''Y'' \<mapsto> Fn1 (Y unpack_qubit),
          ''Z'' \<mapsto> Fn1 (Z unpack_qubit),
          ''H'' \<mapsto> Fn1 (H unpack_qubit),
          ''S'' \<mapsto> Fn1 (S unpack_qubit),
          ''T'' \<mapsto> Fn1 (T unpack_qubit),
          ''PHASE'' \<mapsto> Fn2 (PHASE unpack_qubit),
          ''RX'' \<mapsto> Fn2 (RX unpack_qubit),
          ''RY'' \<mapsto> Fn2 (RY unpack_qubit),
          ''RZ'' \<mapsto> Fn2 (RZ unpack_qubit),
          ''CZ'' \<mapsto> Fn2 (CZ unpack_qubit),
          ''CNOT'' \<mapsto> Fn2 (CNOT unpack_qubit),
          ''CCNOT'' \<mapsto> Fn3 (CCNOT unpack_qubit),
          ''CPHASE00'' \<mapsto> Fn3 (CPHASE00 unpack_qubit),
          ''CPHASE01'' \<mapsto> Fn3 (CPHASE01 unpack_qubit),
          ''CPHASE10'' \<mapsto> Fn3 (CPHASE10 unpack_qubit),
          ''CPHASE'' \<mapsto> Fn3 (CPHASE unpack_qubit),
          ''SWAP'' \<mapsto> Fn2 (SWAP unpack_qubit),
          ''CSWAP'' \<mapsto> Fn3 (CSWAP unpack_qubit),
          ''ISWAP'' \<mapsto> Fn2 (ISWAP unpack_qubit),
          ''PSWAP'' \<mapsto> Fn3 (PSWAP unpack_qubit)] \<rparr>"

subsection \<open>Calls of the module's constructors\<close>

text \<open>
  One call of one of the thirty constructor functions, with its positional arguments in
  the order of the function's parameter list.
\<close>

datatype 'v call =
    Call_I 'v
  | Call_X 'v
  | Call_Y 'v
  | Call_Z 'v
  | Call_H 'v
  | Call_S 'v
  | Call_T 'v
  | Call_RX 'v 'v
  | Call_RY 'v 'v
  | Call_RZ 'v 'v
  | Call_PHASE 'v 'v
  | Call_CZ 'v 'v
  | Call_CNOT 'v 'v
  | Call_CCNOT 'v 'v 'v
  | Call_CPHASE00 'v 'v 'v
  | Call_CPHASE01 'v 'v 'v
  | Call_CPHASE10 'v 'v 'v
  | Call_CPHASE 'v 'v 'v
  | Call_SWAP 'v 'v
  | Call_CSWAP 'v 'v 'v
  | Call_ISWAP 'v 'v
  | Call_PSWAP 'v 'v 'v
  | Call_MEASURE 'v "'v option"
  | Call_TRUE 'v
  | Call_FALSE 'v
  | Call_NOT 'v
  | Call_AND 'v 'v
  | Call_OR 'v 'v
  | Call_MOVE 'v 'v
  | Call_EXCHANGE 'v 'v

fun exec ::
  "('v, 'q, 'e) qubit_normalizer \<Rightarrow> ('v, 'r, 'e) register_normalizer \<Rightarrow>
   'v call \<Rightarrow> 'e + ('v, 'q, 'r) instruction" where
  "exec uq ur (Call_I q) = I uq q"
| "exec uq ur (Call_X q) = X uq q"
| "exec uq ur (Call_Y q) = Y uq q"
| "exec uq ur (Call_Z q) = Z uq q"
| "exec uq ur (Call_H q) = H uq q"
| "exec uq ur (Call_S q) = S uq q"
| "exec uq ur (Call_T q) = T uq q"
| "exec uq ur (Call_RX angle q) = RX uq angle q"
| "exec uq ur (Call_RY angle q) = RY uq angle q"
| "exec uq ur (Call_RZ angle q) = RZ uq angle q"
| "exec uq ur (Call_PHASE angle q) = PHASE uq angle q"
| "exec uq ur (Call_CZ q1 q2) = CZ uq q1 q2"
| "exec uq ur (Call_CNOT q1 q2) = CNOT uq q1 q2"
| "exec uq ur (Call_CCNOT q1 q2 q3) = CCNOT uq q1 q2 q3"
| "exec uq ur (Call_CPHASE00 angle q1 q2) = CPHASE00 uq angle q1 q2"
| "exec uq ur (Call_CPHASE01 angle q1 q2) = CPHASE01 uq angle q1 q2"
| "exec uq ur (Call_CPHASE10 angle q1 q2) = CPHASE10 uq angle q1 q2"
| "exec uq ur (Call_CPHASE angle q1 q2) = CPHASE uq angle q1 q2"
| "exec uq ur (Call_SWAP q1 q2) = SWAP uq q1 q2"
| "exec uq ur (Call_CSWAP q1 q2 q3) = CSWAP uq q1 q2 q3"
| "exec uq ur (Call_ISWAP q1 q2) = ISWAP uq q1 q2"
| "exec uq ur (Call_PSWAP angle q1 q2) = PSWAP uq angle q1 q2"
| "exec uq ur (Call_MEASURE q r) = MEASURE uq ur q r"
| "exec uq ur (Call_TRUE r) = TRUE ur r"
| "exec uq ur (Call_FALSE r) = FALSE ur r"
| "exec uq ur (Call_NOT r) = NOT ur r"
| "exec uq ur (Call_AND r1 r2) = AND ur r1 r2"
| "exec uq ur (Call_OR r1 r2) = OR ur r1 r2"
| "exec uq ur (Call_MOVE r1 r2) = MOVE ur r1 r2"
| "exec uq ur (Call_EXCHANGE r1 r2) = EXCHANGE ur r1 r2"

subsection \<open>Operands and what a normalizer says about them\<close>

text \<open>
  The arguments a call hands to \<^verbatim>\<open>unpack_qubit\<close>, in the order in which the body
  evaluates them. An angle is not among them: no body passes its angle to a normalizer.
\<close>

fun qubit_operands :: "'v call \<Rightarrow> 'v list" where
  "qubit_operands (Call_I q) = [q]"
| "qubit_operands (Call_X q) = [q]"
| "qubit_operands (Call_Y q) = [q]"
| "qubit_operands (Call_Z q) = [q]"
| "qubit_operands (Call_H q) = [q]"
| "qubit_operands (Call_S q) = [q]"
| "qubit_operands (Call_T q) = [q]"
| "qubit_operands (Call_RX angle q) = [q]"
| "qubit_operands (Call_RY angle q) = [q]"
| "qubit_operands (Call_RZ angle q) = [q]"
| "qubit_operands (Call_PHASE angle q) = [q]"
| "qubit_operands (Call_CZ q1 q2) = [q1, q2]"
| "qubit_operands (Call_CNOT q1 q2) = [q1, q2]"
| "qubit_operands (Call_CCNOT q1 q2 q3) = [q1, q2, q3]"
| "qubit_operands (Call_CPHASE00 angle q1 q2) = [q1, q2]"
| "qubit_operands (Call_CPHASE01 angle q1 q2) = [q1, q2]"
| "qubit_operands (Call_CPHASE10 angle q1 q2) = [q1, q2]"
| "qubit_operands (Call_CPHASE angle q1 q2) = [q1, q2]"
| "qubit_operands (Call_SWAP q1 q2) = [q1, q2]"
| "qubit_operands (Call_CSWAP q1 q2 q3) = [q1, q2, q3]"
| "qubit_operands (Call_ISWAP q1 q2) = [q1, q2]"
| "qubit_operands (Call_PSWAP angle q1 q2) = [q1, q2]"
| "qubit_operands (Call_MEASURE q r) = [q]"
| "qubit_operands (Call_TRUE r) = []"
| "qubit_operands (Call_FALSE r) = []"
| "qubit_operands (Call_NOT r) = []"
| "qubit_operands (Call_AND r1 r2) = []"
| "qubit_operands (Call_OR r1 r2) = []"
| "qubit_operands (Call_MOVE r1 r2) = []"
| "qubit_operands (Call_EXCHANGE r1 r2) = []"

text \<open>
  The arguments a call hands to \<^verbatim>\<open>unpack_classical_reg\<close>. The register of
  \<^verbatim>\<open>MEASURE\<close> is an operand when it is present only.
\<close>

fun register_operands :: "'v call \<Rightarrow> 'v list" where
  "register_operands (Call_MEASURE q r) = (case r of None \<Rightarrow> [] | Some c \<Rightarrow> [c])"
| "register_operands (Call_TRUE r) = [r]"
| "register_operands (Call_FALSE r) = [r]"
| "register_operands (Call_NOT r) = [r]"
| "register_operands (Call_AND r1 r2) = [r1, r2]"
| "register_operands (Call_OR r1 r2) = [r1, r2]"
| "register_operands (Call_MOVE r1 r2) = [r1, r2]"
| "register_operands (Call_EXCHANGE r1 r2) = [r1, r2]"
| "register_operands _ = []"

text \<open>The exceptions among a list of results, in the order of the list.\<close>

fun errors_of :: "('e + 'a) list \<Rightarrow> 'e list" where
  "errors_of [] = []"
| "errors_of (r # rs) = (case r of Inl e \<Rightarrow> e # errors_of rs | Inr a \<Rightarrow> errors_of rs)"

text \<open>
  The exceptions the two normalizers raise on the operands of a call, qubit operands
  first: every body normalizes its qubits before its registers.
\<close>

definition rejections ::
  "('v, 'q, 'e) qubit_normalizer \<Rightarrow> ('v, 'r, 'e) register_normalizer \<Rightarrow> 'v call \<Rightarrow> 'e list" where
  "rejections uq ur c =
     errors_of (map uq (qubit_operands c)) @ errors_of (map ur (register_operands c))"

subsection \<open>The catalog of the specification\<close>

text \<open>
  \<open>yields_gate res mnemonic qubit_arity param_arity\<close>: the call returned, what it returned
  is a \<open>Gate\<close>, and its name and the lengths of its two sequences are the given ones.
\<close>

definition yields_gate ::
  "'e + ('v, 'q, 'r) instruction \<Rightarrow> string \<Rightarrow> nat \<Rightarrow> nat \<Rightarrow> bool" where
  "yields_gate res mnemonic qubit_arity param_arity =
     (case res of
        Inr (Gate n ps qs) \<Rightarrow>
          n = mnemonic \<and> length qs = qubit_arity \<and> length ps = param_arity
      | _ \<Rightarrow> False)"

text \<open>The gate mnemonics of the fixed catalog, in the order of the specification.\<close>

definition gate_mnemonics :: "string list" where
  "gate_mnemonics =
     [''I'', ''X'', ''Y'', ''Z'', ''H'', ''S'', ''T'', ''RX'', ''RY'', ''RZ'', ''PHASE'',
      ''CZ'', ''CNOT'', ''CCNOT'', ''CPHASE00'', ''CPHASE01'', ''CPHASE10'', ''CPHASE'',
      ''SWAP'', ''CSWAP'', ''ISWAP'', ''PSWAP'']"

text \<open>
  Each mnemonic of the catalog with the top-level function of that name, as a direct call
  of the function would reach it. This table follows the catalog of the specification; the
  registry of \<open>module_init\<close> follows the dict display of the source.
\<close>

definition top_level_constructors ::
  "('v, 'q, 'e) qubit_normalizer \<Rightarrow>
   (string \<times> ('v, 'e + ('v, 'q, 'r) instruction) py_function) list" where
  "top_level_constructors uq =
     [(''I'', Fn1 (I uq)), (''X'', Fn1 (X uq)), (''Y'', Fn1 (Y uq)), (''Z'', Fn1 (Z uq)),
      (''H'', Fn1 (H uq)), (''S'', Fn1 (S uq)), (''T'', Fn1 (T uq)),
      (''RX'', Fn2 (RX uq)), (''RY'', Fn2 (RY uq)), (''RZ'', Fn2 (RZ uq)),
      (''PHASE'', Fn2 (PHASE uq)),
      (''CZ'', Fn2 (CZ uq)), (''CNOT'', Fn2 (CNOT uq)), (''CCNOT'', Fn3 (CCNOT uq)),
      (''CPHASE00'', Fn3 (CPHASE00 uq)), (''CPHASE01'', Fn3 (CPHASE01 uq)),
      (''CPHASE10'', Fn3 (CPHASE10 uq)), (''CPHASE'', Fn3 (CPHASE uq)),
      (''SWAP'', Fn2 (SWAP uq)), (''CSWAP'', Fn3 (CSWAP uq)), (''ISWAP'', Fn2 (ISWAP uq)),
      (''PSWAP'', Fn3 (PSWAP uq))]"

subsection \<open>A pair of normalizers for concrete evaluations\<close>

text \<open>
  Modelled from the spec: \<^verbatim>\<open>unpack_qubit\<close> and \<^verbatim>\<open>unpack_classical_reg\<close> are defined in
  \<^verbatim>\<open>pyquil.quilatom\<close>, which is not part of the sources at hand. The specification gives
  their contract: a normalizer accepts a raw designator, an integer index or a
  placeholder, and returns a canonical reference; it fails with \<^verbatim>\<open>InvalidOperand\<close> on
  anything else, a negative index and a designator of the wrong category among them.
  The two functions below are one pair that meets this contract. No general theorem of
  this theory depends on them: they serve to evaluate the constructors on concrete
  arguments.
\<close>

datatype py_value =
    PyInt int
  | PyStr string
  | QubitPlaceholder nat
  | RegisterPlaceholder nat

datatype qubit_ref = Qubit nat | QubitSlot nat

datatype register_ref = Addr nat | AddrSlot nat

datatype error = InvalidOperand py_value

fun example_unpack_qubit :: "py_value \<Rightarrow> error + qubit_ref" where
  "example_unpack_qubit (PyInt i) =
     (if 0 \<le> i then Inr (Qubit (nat i)) else Inl (InvalidOperand (PyInt i)))"
| "example_unpack_qubit (QubitPlaceholder k) = Inr (QubitSlot k)"
| "example_unpack_qubit v = Inl (InvalidOperand v)"

fun example_unpack_classical_reg :: "py_value \<Rightarrow> error + register_ref" where
  "example_unpack_classical_reg (PyInt i) =
     (if 0 \<le> i then Inr (Addr (nat i)) else Inl (InvalidOperand (PyInt i)))"
| "example_unpack_classical_reg (RegisterPlaceholder k) = Inr (AddrSlot k)"
| "example_unpack_classical_reg v = Inl (InvalidOperand v)"

type_synonym example_instruction = "(py_value, qubit_ref, register_ref) instruction"

section \<open>Properties\<close>

subsection \<open>Unfolding the constructors\<close>

lemmas gate_defs = I_def X_def Y_def Z_def H_def S_def T_def RX_def RY_def RZ_def PHASE_def
  CZ_def CNOT_def CCNOT_def CPHASE00_def CPHASE01_def CPHASE10_def CPHASE_def SWAP_def
  CSWAP_def ISWAP_def PSWAP_def

lemmas classical_defs = MEASURE_def TRUE_def FALSE_def NOT_def AND_def OR_def MOVE_def
  EXCHANGE_def

subsection \<open>Names and arities of the gates\<close>

text \<open>
  C1. For each of the twenty-two gate mnemonics, a call of the constructor of that name
  whose qubit operands the qubit normalizer accepts returns a \<open>Gate\<close>; its name is the
  mnemonic, its qubit sequence has the qubit arity of the catalog (1, 2 or 3) and its
  parameter sequence the parameter arity of the catalog (0 or 1). The angle \<open>v\<close> is
  arbitrary.
\<close>

theorem gate_catalog_arities:
  "(uq a = Inr qa \<longrightarrow>
      yields_gate (I uq a) ''I'' 1 0 \<and>
      yields_gate (X uq a) ''X'' 1 0 \<and>
      yields_gate (Y uq a) ''Y'' 1 0 \<and>
      yields_gate (Z uq a) ''Z'' 1 0 \<and>
      yields_gate (H uq a) ''H'' 1 0 \<and>
      yields_gate (S uq a) ''S'' 1 0 \<and>
      yields_gate (T uq a) ''T'' 1 0 \<and>
      yields_gate (RX uq v a) ''RX'' 1 1 \<and>
      yields_gate (RY uq v a) ''RY'' 1 1 \<and>
      yields_gate (RZ uq v a) ''RZ'' 1 1 \<and>
      yields_gate (PHASE uq v a) ''PHASE'' 1 1) \<and>
   (uq a = Inr qa \<and> uq b = Inr qb \<longrightarrow>
      yields_gate (CZ uq a b) ''CZ'' 2 0 \<and>
      yields_gate (CNOT uq a b) ''CNOT'' 2 0 \<and>
      yields_gate (SWAP uq a b) ''SWAP'' 2 0 \<and>
      yields_gate (ISWAP uq a b) ''ISWAP'' 2 0 \<and>
      yields_gate (CPHASE00 uq v a b) ''CPHASE00'' 2 1 \<and>
      yields_gate (CPHASE01 uq v a b) ''CPHASE01'' 2 1 \<and>
      yields_gate (CPHASE10 uq v a b) ''CPHASE10'' 2 1 \<and>
      yields_gate (CPHASE uq v a b) ''CPHASE'' 2 1 \<and>
      yields_gate (PSWAP uq v a b) ''PSWAP'' 2 1) \<and>
   (uq a = Inr qa \<and> uq b = Inr qb \<and> uq c = Inr qc \<longrightarrow>
      yields_gate (CCNOT uq a b c) ''CCNOT'' 3 0 \<and>
      yields_gate (CSWAP uq a b c) ''CSWAP'' 3 0)"
  by (simp add: gate_defs yields_gate_def and_then_def)

theorem gate_catalog_arities_witness:
  "example_unpack_qubit (PyInt 0) = Inr (Qubit 0) \<and>
   example_unpack_qubit (PyInt 1) = Inr (Qubit 1) \<and>
   example_unpack_qubit (QubitPlaceholder 7) = Inr (QubitSlot 7) \<and>
   yields_gate (I example_unpack_qubit (PyInt 0)) ''I'' 1 0 \<and>
   yields_gate (X example_unpack_qubit (PyInt 0)) ''X'' 1 0 \<and>
   yields_gate (Y example_unpack_qubit (PyInt 0)) ''Y'' 1 0 \<and>
   yields_gate (Z example_unpack_qubit (PyInt 0)) ''Z'' 1 0 \<and>
   yields_gate (H example_unpack_qubit (PyInt 0)) ''H'' 1 0 \<and>
   yields_gate (S example_unpack_qubit (PyInt 0)) ''S'' 1 0 \<and>
   yields_gate (T example_unpack_qubit (PyInt 0)) ''T'' 1 0 \<and>
   yields_gate (RX example_unpack_qubit (PyStr ''theta'') (PyInt 0)) ''RX'' 1 1 \<and>
   yields_gate (RY example_unpack_qubit (PyStr ''theta'') (PyInt 0)) ''RY'' 1 1 \<and>
   yields_gate (RZ example_unpack_qubit (PyStr ''theta'') (PyInt 0)) ''RZ'' 1 1 \<and>
   yields_gate (PHASE example_unpack_qubit (PyStr ''theta'') (PyInt 0)) ''PHASE'' 1 1 \<and>
   yields_gate (CZ example_unpack_qubit (PyInt 0) (PyInt 1)) ''CZ'' 2 0 \<and>
   yields_gate (CNOT example_unpack_qubit (PyInt 0) (PyInt 1)) ''CNOT'' 2 0 \<and>
   yields_gate (SWAP example_unpack_qubit (PyInt 0) (PyInt 1)) ''SWAP'' 2 0 \<and>
   yields_gate (ISWAP example_unpack_qubit (PyInt 0) (PyInt 1)) ''ISWAP'' 2 0 \<and>
   yields_gate (CPHASE00 example_unpack_qubit (PyStr ''theta'') (PyInt 0) (PyInt 1)) ''CPHASE00'' 2 1 \<and>
   yields_gate (CPHASE01 example_unpack_qubit (PyStr ''theta'') (PyInt 0) (PyInt 1)) ''CPHASE01'' 2 1 \<and>
   yields_gate (CPHASE10 example_unpack_qubit (PyStr ''theta'') (PyInt 0) (PyInt 1)) ''CPHASE10'' 2 1 \<and>
   yields_gate (CPHASE example_unpack_qubit (PyStr ''theta'') (PyInt 0) (PyInt 1)) ''CPHASE'' 2 1 \<and>
   yields_gate (PSWAP example_unpack_qubit (PyStr ''theta'') (PyInt 0) (PyInt 1)) ''PSWAP'' 2 1 \<and>
   yields_gate (CCNOT example_unpack_qubit (PyInt 0) (PyInt 1) (QubitPlaceholder 7)) ''CCNOT'' 3 0 \<and>
   yields_gate (CSWAP example_unpack_qubit (PyInt 0) (PyInt 1) (QubitPlaceholder 7)) ''CSWAP'' 3 0"
  using gate_catalog_arities [where uq = example_unpack_qubit and a = "PyInt 0" and qa = "Qubit 0"
      and b = "PyInt 1" and qb = "Qubit 1" and c = "QubitPlaceholder 7" and qc = "QubitSlot 7"
      and v = "PyStr ''theta''"]
  by simp

subsection \<open>The registry\<close>

text \<open>
  C2. The keys of \<open>STANDARD_GATES\<close> after module initialization are the twenty-two
  mnemonics of the catalog, no more and no fewer, and the catalog has no mnemonic twice.
  For every mnemonic, the registry holds a function at that key, and this function and the
  top-level constructor of that name give the same result on every tuple of arguments:
  the same instruction, the same exception, or, for a tuple of the wrong length, no call
  at all.
\<close>

theorem registry_dispatch:
  fixes uq :: "('v, 'q, 'e) qubit_normalizer"
  shows "dom (STANDARD_GATES (module_init uq :: ('v, 'q, 'r, 'e) module)) = set gate_mnemonics \<and>
   distinct gate_mnemonics \<and> length gate_mnemonics = 22 \<and>
   map fst (top_level_constructors uq
              :: (string \<times> ('v, 'e + ('v, 'q, 'r) instruction) py_function) list)
     = gate_mnemonics \<and>
   (\<forall>(mnemonic, constructor) \<in> set (top_level_constructors uq).
      \<exists>f. STANDARD_GATES (module_init uq :: ('v, 'q, 'r, 'e) module) mnemonic = Some f \<and>
          (\<forall>args. invoke f args = invoke constructor args))"
proof -
  let ?m = "module_init uq :: ('v, 'q, 'r, 'e) module"
  let ?table = "top_level_constructors uq
              :: (string \<times> ('v, 'e + ('v, 'q, 'r) instruction) py_function) list"
  have keys: "dom (STANDARD_GATES ?m) = set gate_mnemonics"
    by (auto simp add: module_init_def gate_mnemonics_def)
  have catalog: "distinct gate_mnemonics \<and> length gate_mnemonics = 22"
    by (simp add: gate_mnemonics_def)
  have names: "map fst ?table = gate_mnemonics"
    by (simp add: top_level_constructors_def gate_mnemonics_def)
  have same: "\<forall>(mnemonic, constructor) \<in> set ?table.
      \<exists>f. STANDARD_GATES ?m mnemonic = Some f \<and>
          (\<forall>args. invoke f args = invoke constructor args)"
    by (simp add: top_level_constructors_def module_init_def)
  from keys catalog names same show ?thesis by blast
qed

theorem registry_dispatch_witness:
  "(''CNOT'', Fn2 (CNOT example_unpack_qubit))
     \<in> set (top_level_constructors example_unpack_qubit
             :: (string \<times> (py_value, error + example_instruction) py_function) list) \<and>
   (\<exists>f. STANDARD_GATES (module_init example_unpack_qubit) ''CNOT'' = Some f \<and>
        invoke f [PyInt 0, PyInt 1]
          = Some (Inr (Gate ''CNOT'' [] [Qubit 0, Qubit 1]) :: error + example_instruction))"
proof -
  let ?m = "module_init example_unpack_qubit
              :: (py_value, qubit_ref, register_ref, error) module"
  let ?table = "top_level_constructors example_unpack_qubit
              :: (string \<times> (py_value, error + example_instruction) py_function) list"
  have mem: "(''CNOT'', Fn2 (CNOT example_unpack_qubit)) \<in> set ?table"
    by (simp add: top_level_constructors_def)
  note t = registry_dispatch [where uq = example_unpack_qubit and 'r = register_ref]
  from t have "\<forall>(mnemonic, constructor) \<in> set ?table.
      \<exists>f. STANDARD_GATES ?m mnemonic = Some f \<and>
          (\<forall>args. invoke f args = invoke constructor args)"
    by blast
  with mem obtain f where
    f: "STANDARD_GATES ?m ''CNOT'' = Some f"
       "\<forall>args. invoke f args = invoke (Fn2 (CNOT example_unpack_qubit)) args"
    by blast
  have "invoke f [PyInt 0, PyInt 1]
          = Some (Inr (Gate ''CNOT'' [] [Qubit 0, Qubit 1]) :: error + example_instruction)"
    using f(2) by (simp add: CNOT_def and_then_def)
  with mem f(1) show ?thesis by blast
qed

subsection \<open>Measurement\<close>

text \<open>
  C3. Let the qubit normalizer accept \<open>q\<close> and return \<open>q'\<close>. Then \<open>MEASURE\<close> without a
  register returns a measurement of \<open>q'\<close> with no address, and \<open>MEASURE\<close> with a
  register \<open>r\<close> that the register normalizer accepts returns a measurement of \<open>q'\<close>
  whose address is what the register normalizer returned for \<open>r\<close>. Without a register,
  the register normalizer is not applied: the result is the same under every register
  normalizer \<open>ur'\<close>, one that rejects everything among them.
\<close>

theorem MEASURE_address:
  "uq q = Inr q' \<Longrightarrow>
     MEASURE uq ur q None = Inr (Measurement q' None) \<and>
     (\<forall>r a. ur r = Inr a \<longrightarrow> MEASURE uq ur q (Some r) = Inr (Measurement q' (Some a))) \<and>
     (\<forall>ur'. MEASURE uq ur' q None = MEASURE uq ur q None)"
  by (simp add: MEASURE_def and_then_def)

theorem MEASURE_address_witness:
  "example_unpack_qubit (PyInt 0) = Inr (Qubit 0) \<and>
   example_unpack_classical_reg (PyInt 3) = Inr (Addr 3) \<and>
   MEASURE example_unpack_qubit example_unpack_classical_reg (PyInt 0) None
     = Inr (Measurement (Qubit 0) None) \<and>
   MEASURE example_unpack_qubit example_unpack_classical_reg (PyInt 0) (Some (PyInt 3))
     = Inr (Measurement (Qubit 0) (Some (Addr 3))) \<and>
   MEASURE example_unpack_qubit (\<lambda>v. Inl (InvalidOperand v)) (PyInt 0) None
     = (MEASURE example_unpack_qubit example_unpack_classical_reg (PyInt 0) None
          :: error + example_instruction)"
proof -
  have q: "example_unpack_qubit (PyInt 0) = Inr (Qubit 0)" by simp
  have r: "example_unpack_classical_reg (PyInt 3) = Inr (Addr 3)" by simp
  note m = MEASURE_address [where uq = example_unpack_qubit and q = "PyInt 0"
      and q' = "Qubit 0" and ur = example_unpack_classical_reg, OF q]
  from m have absent: "MEASURE example_unpack_qubit example_unpack_classical_reg (PyInt 0) None
      = Inr (Measurement (Qubit 0) None)"
    by (rule conjunct1)
  from m r have present:
    "MEASURE example_unpack_qubit example_unpack_classical_reg (PyInt 0) (Some (PyInt 3))
      = Inr (Measurement (Qubit 0) (Some (Addr 3)))"
    by blast
  from m have unused: "MEASURE example_unpack_qubit (\<lambda>v. Inl (InvalidOperand v)) (PyInt 0) None
      = (MEASURE example_unpack_qubit example_unpack_classical_reg (PyInt 0) None
           :: error + example_instruction)"
    by blast
  from q r absent present unused show ?thesis by blast
qed

subsection \<open>Order of the operands\<close>

text \<open>
  C4. The qubit sequence of a gate of two or three qubits holds the normalized forms of
  the qubit arguments in the order of the call, and the two fields of \<open>ClassicalAnd\<close>,
  \<open>ClassicalOr\<close>, \<open>ClassicalMove\<close> and \<open>ClassicalExchange\<close> hold the normalized forms
  of the first and of the second register argument, in this order.
\<close>

theorem argument_order_preserved:
  "(uq a = Inr qa \<and> uq b = Inr qb \<longrightarrow>
      CZ uq a b = Inr (Gate ''CZ'' [] [qa, qb]) \<and>
      CNOT uq a b = Inr (Gate ''CNOT'' [] [qa, qb]) \<and>
      SWAP uq a b = Inr (Gate ''SWAP'' [] [qa, qb]) \<and>
      ISWAP uq a b = Inr (Gate ''ISWAP'' [] [qa, qb]) \<and>
      CPHASE00 uq v a b = Inr (Gate ''CPHASE00'' [v] [qa, qb]) \<and>
      CPHASE01 uq v a b = Inr (Gate ''CPHASE01'' [v] [qa, qb]) \<and>
      CPHASE10 uq v a b = Inr (Gate ''CPHASE10'' [v] [qa, qb]) \<and>
      CPHASE uq v a b = Inr (Gate ''CPHASE'' [v] [qa, qb]) \<and>
      PSWAP uq v a b = Inr (Gate ''PSWAP'' [v] [qa, qb])) \<and>
   (uq a = Inr qa \<and> uq b = Inr qb \<and> uq c = Inr qc \<longrightarrow>
      CCNOT uq a b c = Inr (Gate ''CCNOT'' [] [qa, qb, qc]) \<and>
      CSWAP uq a b c = Inr (Gate ''CSWAP'' [] [qa, qb, qc])) \<and>
   (ur x = Inr rx \<and> ur y = Inr ry \<longrightarrow>
      AND ur x y = Inr (ClassicalAnd rx ry) \<and>
      OR ur x y = Inr (ClassicalOr rx ry) \<and>
      MOVE ur x y = Inr (ClassicalMove rx ry) \<and>
      EXCHANGE ur x y = Inr (ClassicalExchange rx ry))"
  by (simp add: gate_defs classical_defs and_then_def)

theorem argument_order_preserved_witness:
  "example_unpack_qubit (PyInt 0) = Inr (Qubit 0) \<and>
   example_unpack_qubit (PyInt 1) = Inr (Qubit 1) \<and>
   example_unpack_qubit (PyInt 2) = Inr (Qubit 2) \<and>
   example_unpack_classical_reg (PyInt 5) = Inr (Addr 5) \<and>
   example_unpack_classical_reg (RegisterPlaceholder 4) = Inr (AddrSlot 4) \<and>
   CZ example_unpack_qubit (PyInt 0) (PyInt 1) = Inr (Gate ''CZ'' [] [Qubit 0, Qubit 1]) \<and>
   CNOT example_unpack_qubit (PyInt 0) (PyInt 1) = Inr (Gate ''CNOT'' [] [Qubit 0, Qubit 1]) \<and>
   SWAP example_unpack_qubit (PyInt 0) (PyInt 1) = Inr (Gate ''SWAP'' [] [Qubit 0, Qubit 1]) \<and>
   ISWAP example_unpack_qubit (PyInt 0) (PyInt 1) = Inr (Gate ''ISWAP'' [] [Qubit 0, Qubit 1]) \<and>
   CPHASE00 example_unpack_qubit (PyStr ''theta'') (PyInt 0) (PyInt 1) = Inr (Gate ''CPHASE00'' [PyStr ''theta''] [Qubit 0, Qubit 1]) \<and>
   CPHASE01 example_unpack_qubit (PyStr ''theta'') (PyInt 0) (PyInt 1) = Inr (Gate ''CPHASE01'' [PyStr ''theta''] [Qubit 0, Qubit 1]) \<and>
   CPHASE10 example_unpack_qubit (PyStr ''theta'') (PyInt 0) (PyInt 1) = Inr (Gate ''CPHASE10'' [PyStr ''theta''] [Qubit 0, Qubit 1]) \<and>
   CPHASE example_unpack_qubit (PyStr ''theta'') (PyInt 0) (PyInt 1) = Inr (Gate ''CPHASE'' [PyStr ''theta''] [Qubit 0, Qubit 1]) \<and>
   PSWAP example_unpack_qubit (PyStr ''theta'') (PyInt 0) (PyInt 1) = Inr (Gate ''PSWAP'' [PyStr ''theta''] [Qubit 0, Qubit 1]) \<and>
   CCNOT example_unpack_qubit (PyInt 0) (PyInt 1) (PyInt 2) = Inr (Gate ''CCNOT'' [] [Qubit 0, Qubit 1, Qubit 2]) \<and>
   CSWAP example_unpack_qubit (PyInt 0) (PyInt 1) (PyInt 2) = Inr (Gate ''CSWAP'' [] [Qubit 0, Qubit 1, Qubit 2]) \<and>
   AND example_unpack_classical_reg (PyInt 5) (RegisterPlaceholder 4) = Inr (ClassicalAnd (Addr 5) (AddrSlot 4)) \<and>
   OR example_unpack_classical_reg (PyInt 5) (RegisterPlaceholder 4) = Inr (ClassicalOr (Addr 5) (AddrSlot 4)) \<and>
   MOVE example_unpack_classical_reg (PyInt 5) (RegisterPlaceholder 4) = Inr (ClassicalMove (Addr 5) (AddrSlot 4)) \<and>
   EXCHANGE example_unpack_classical_reg (PyInt 5) (RegisterPlaceholder 4) = Inr (ClassicalExchange (Addr 5) (AddrSlot 4))"
  using argument_order_preserved [where uq = example_unpack_qubit and ur = example_unpack_classical_reg
      and a = "PyInt 0" and qa = "Qubit 0" and b = "PyInt 1" and qb = "Qubit 1"
      and c = "PyInt 2" and qc = "Qubit 2" and v = "PyStr ''theta''"
      and x = "PyInt 5" and rx = "Addr 5" and y = "RegisterPlaceholder 4" and ry = "AddrSlot 4"]
  by simp

subsection \<open>Angles\<close>

text \<open>
  C5. For each of the nine parameterized gates and every angle \<open>v\<close> whatsoever: when the
  qubit normalizer accepts the qubit operands of the call, the call returns a gate, and
  the parameter sequence of this gate is \<open>[v]\<close>, the one angle as it was passed. Nothing
  is asked of \<open>v\<close>: no value of the angle makes the call raise, and none is changed on
  the way into the gate.
\<close>

theorem angle_passed_unchanged:
  "(uq a = Inr qa \<longrightarrow>
      RX uq v a = Inr (Gate ''RX'' [v] [qa]) \<and>
      RY uq v a = Inr (Gate ''RY'' [v] [qa]) \<and>
      RZ uq v a = Inr (Gate ''RZ'' [v] [qa]) \<and>
      PHASE uq v a = Inr (Gate ''PHASE'' [v] [qa])) \<and>
   (uq a = Inr qa \<and> uq b = Inr qb \<longrightarrow>
      CPHASE00 uq v a b = Inr (Gate ''CPHASE00'' [v] [qa, qb]) \<and>
      CPHASE01 uq v a b = Inr (Gate ''CPHASE01'' [v] [qa, qb]) \<and>
      CPHASE10 uq v a b = Inr (Gate ''CPHASE10'' [v] [qa, qb]) \<and>
      CPHASE uq v a b = Inr (Gate ''CPHASE'' [v] [qa, qb]) \<and>
      PSWAP uq v a b = Inr (Gate ''PSWAP'' [v] [qa, qb]))"
  by (simp add: gate_defs and_then_def)

theorem angle_passed_unchanged_witness:
  "example_unpack_qubit (PyInt 0) = Inr (Qubit 0) \<and>
   example_unpack_qubit (QubitPlaceholder 2) = Inr (QubitSlot 2) \<and>
   RX example_unpack_qubit (PyStr ''theta'') (PyInt 0)
     = Inr (Gate ''RX'' [PyStr ''theta''] [Qubit 0]) \<and>
   RY example_unpack_qubit (PyStr ''theta'') (PyInt 0)
     = Inr (Gate ''RY'' [PyStr ''theta''] [Qubit 0]) \<and>
   RZ example_unpack_qubit (PyStr ''theta'') (PyInt 0)
     = Inr (Gate ''RZ'' [PyStr ''theta''] [Qubit 0]) \<and>
   PHASE example_unpack_qubit (PyStr ''theta'') (PyInt 0)
     = Inr (Gate ''PHASE'' [PyStr ''theta''] [Qubit 0]) \<and>
   CPHASE00 example_unpack_qubit (PyStr ''theta'') (PyInt 0) (QubitPlaceholder 2)
     = Inr (Gate ''CPHASE00'' [PyStr ''theta''] [Qubit 0, QubitSlot 2]) \<and>
   CPHASE01 example_unpack_qubit (PyStr ''theta'') (PyInt 0) (QubitPlaceholder 2)
     = Inr (Gate ''CPHASE01'' [PyStr ''theta''] [Qubit 0, QubitSlot 2]) \<and>
   CPHASE10 example_unpack_qubit (PyStr ''theta'') (PyInt 0) (QubitPlaceholder 2)
     = Inr (Gate ''CPHASE10'' [PyStr ''theta''] [Qubit 0, QubitSlot 2]) \<and>
   CPHASE example_unpack_qubit (PyStr ''theta'') (PyInt 0) (QubitPlaceholder 2)
     = Inr (Gate ''CPHASE'' [PyStr ''theta''] [Qubit 0, QubitSlot 2]) \<and>
   PSWAP example_unpack_qubit (PyStr ''theta'') (PyInt 0) (QubitPlaceholder 2)
     = Inr (Gate ''PSWAP'' [PyStr ''theta''] [Qubit 0, QubitSlot 2])"
proof -
  have a: "example_unpack_qubit (PyInt 0) = Inr (Qubit 0)"
    by simp
  have b: "example_unpack_qubit (QubitPlaceholder 2) = Inr (QubitSlot 2)"
    by simp
  note t = angle_passed_unchanged [where uq = example_unpack_qubit
      and v = "PyStr ''theta''" and a = "PyInt 0" and qa = "Qubit 0"
      and b = "QubitPlaceholder 2" and qb = "QubitSlot 2"]
  from t a b show ?thesis
    by blast
qed

subsection \<open>Exceptions\<close>

text \<open>
  C6. For each of the thirty constructors: when no normalizer rejects an operand of the
  call, the call returns an instruction; when a normalizer rejects one, the call raises
  the exception of the first rejected operand, as the normalizer raised it, and returns
  nothing. Every exception a call raises is one a normalizer raised on an operand of this
  call.
\<close>

theorem normalizer_errors_propagate:
  "(case rejections uq ur c of
      [] \<Rightarrow> (\<exists>i. exec uq ur c = Inr i)
    | e # es \<Rightarrow> exec uq ur c = Inl e) \<and>
   (\<forall>e. exec uq ur c = Inl e \<longrightarrow> e \<in> set (rejections uq ur c))"
  by (cases c)
     (simp_all add: rejections_def gate_defs classical_defs and_then_def
           split: sum.split option.split)

theorem normalizer_errors_propagate_witness:
  "rejections example_unpack_qubit example_unpack_classical_reg
     (Call_CNOT (PyInt 0) (PyInt (- 1))) = [InvalidOperand (PyInt (- 1))] \<and>
   exec example_unpack_qubit example_unpack_classical_reg
     (Call_CNOT (PyInt 0) (PyInt (- 1))) = Inl (InvalidOperand (PyInt (- 1))) \<and>
   InvalidOperand (PyInt (- 1)) \<in> set (rejections example_unpack_qubit
     example_unpack_classical_reg (Call_CNOT (PyInt 0) (PyInt (- 1))))"
proof -
  let ?c = "Call_CNOT (PyInt 0) (PyInt (- 1))"
  have rej: "rejections example_unpack_qubit example_unpack_classical_reg ?c
      = [InvalidOperand (PyInt (- 1))]"
    by (simp add: rejections_def)
  note t = normalizer_errors_propagate
    [of example_unpack_qubit example_unpack_classical_reg ?c]
  from t have "case rejections example_unpack_qubit example_unpack_classical_reg ?c of
      [] \<Rightarrow> (\<exists>i. exec example_unpack_qubit example_unpack_classical_reg ?c = Inr i)
    | e # es \<Rightarrow> exec example_unpack_qubit example_unpack_classical_reg ?c = Inl e"
    by (rule conjunct1)
  then have raised: "exec example_unpack_qubit example_unpack_classical_reg ?c
      = Inl (InvalidOperand (PyInt (- 1)))"
    by (simp only: rej list.case)
  from t raised have mem: "InvalidOperand (PyInt (- 1))
      \<in> set (rejections example_unpack_qubit example_unpack_classical_reg ?c)"
    by blast
  from rej raised mem show ?thesis by blast
qed

subsection \<open>Repeated operands\<close>

text \<open>
  C9. A qubit designator \<open>q\<close> that the qubit normalizer accepts may fill every qubit
  position of a gate of two or three qubits, and a register designator \<open>r\<close> that the
  register normalizer accepts both positions of \<open>AND\<close>, \<open>OR\<close>, \<open>MOVE\<close> and
  \<open>EXCHANGE\<close>: the call returns, and every position holds the normalized form of the
  repeated designator.
\<close>

theorem repeated_operands_accepted:
  "(uq q = Inr q' \<longrightarrow>
      CZ uq q q = Inr (Gate ''CZ'' [] [q', q']) \<and>
      CNOT uq q q = Inr (Gate ''CNOT'' [] [q', q']) \<and>
      SWAP uq q q = Inr (Gate ''SWAP'' [] [q', q']) \<and>
      ISWAP uq q q = Inr (Gate ''ISWAP'' [] [q', q']) \<and>
      CPHASE00 uq v q q = Inr (Gate ''CPHASE00'' [v] [q', q']) \<and>
      CPHASE01 uq v q q = Inr (Gate ''CPHASE01'' [v] [q', q']) \<and>
      CPHASE10 uq v q q = Inr (Gate ''CPHASE10'' [v] [q', q']) \<and>
      CPHASE uq v q q = Inr (Gate ''CPHASE'' [v] [q', q']) \<and>
      PSWAP uq v q q = Inr (Gate ''PSWAP'' [v] [q', q']) \<and>
      CCNOT uq q q q = Inr (Gate ''CCNOT'' [] [q', q', q']) \<and>
      CSWAP uq q q q = Inr (Gate ''CSWAP'' [] [q', q', q'])) \<and>
   (ur r = Inr r' \<longrightarrow>
      AND ur r r = Inr (ClassicalAnd r' r') \<and>
      OR ur r r = Inr (ClassicalOr r' r') \<and>
      MOVE ur r r = Inr (ClassicalMove r' r') \<and>
      EXCHANGE ur r r = Inr (ClassicalExchange r' r'))"
  by (simp add: gate_defs classical_defs and_then_def)

theorem repeated_operands_accepted_witness:
  "example_unpack_qubit (QubitPlaceholder 3) = Inr (QubitSlot 3) \<and>
   example_unpack_classical_reg (PyInt 6) = Inr (Addr 6) \<and>
   CZ example_unpack_qubit (QubitPlaceholder 3) (QubitPlaceholder 3) = Inr (Gate ''CZ'' [] [QubitSlot 3, QubitSlot 3]) \<and>
   CNOT example_unpack_qubit (QubitPlaceholder 3) (QubitPlaceholder 3) = Inr (Gate ''CNOT'' [] [QubitSlot 3, QubitSlot 3]) \<and>
   SWAP example_unpack_qubit (QubitPlaceholder 3) (QubitPlaceholder 3) = Inr (Gate ''SWAP'' [] [QubitSlot 3, QubitSlot 3]) \<and>
   ISWAP example_unpack_qubit (QubitPlaceholder 3) (QubitPlaceholder 3) = Inr (Gate ''ISWAP'' [] [QubitSlot 3, QubitSlot 3]) \<and>
   CPHASE00 example_unpack_qubit (PyInt 1) (QubitPlaceholder 3) (QubitPlaceholder 3) = Inr (Gate ''CPHASE00'' [PyInt 1] [QubitSlot 3, QubitSlot 3]) \<and>
   CPHASE01 example_unpack_qubit (PyInt 1) (QubitPlaceholder 3) (QubitPlaceholder 3) = Inr (Gate ''CPHASE01'' [PyInt 1] [QubitSlot 3, QubitSlot 3]) \<and>
   CPHASE10 example_unpack_qubit (PyInt 1) (QubitPlaceholder 3) (QubitPlaceholder 3) = Inr (Gate ''CPHASE10'' [PyInt 1] [QubitSlot 3, QubitSlot 3]) \<and>
   CPHASE example_unpack_qubit (PyInt 1) (QubitPlaceholder 3) (QubitPlaceholder 3) = Inr (Gate ''CPHASE'' [PyInt 1] [QubitSlot 3, QubitSlot 3]) \<and>
   PSWAP example_unpack_qubit (PyInt 1) (QubitPlaceholder 3) (QubitPlaceholder 3) = Inr (Gate ''PSWAP'' [PyInt 1] [QubitSlot 3, QubitSlot 3]) \<and>
   CCNOT example_unpack_qubit (QubitPlaceholder 3) (QubitPlaceholder 3) (QubitPlaceholder 3) = Inr (Gate ''CCNOT'' [] [QubitSlot 3, QubitSlot 3, QubitSlot 3]) \<and>
   CSWAP example_unpack_qubit (QubitPlaceholder 3) (QubitPlaceholder 3) (QubitPlaceholder 3) = Inr (Gate ''CSWAP'' [] [QubitSlot 3, QubitSlot 3, QubitSlot 3]) \<and>
   AND example_unpack_classical_reg (PyInt 6) (PyInt 6) = Inr (ClassicalAnd (Addr 6) (Addr 6)) \<and>
   OR example_unpack_classical_reg (PyInt 6) (PyInt 6) = Inr (ClassicalOr (Addr 6) (Addr 6)) \<and>
   MOVE example_unpack_classical_reg (PyInt 6) (PyInt 6) = Inr (ClassicalMove (Addr 6) (Addr 6)) \<and>
   EXCHANGE example_unpack_classical_reg (PyInt 6) (PyInt 6) = Inr (ClassicalExchange (Addr 6) (Addr 6))"
  using repeated_operands_accepted [where uq = example_unpack_qubit and ur = example_unpack_classical_reg
      and q = "QubitPlaceholder 3" and q' = "QubitSlot 3" and v = "PyInt 1"
      and r = "PyInt 6" and r' = "Addr 6"]
  by simp

subsection \<open>The four singletons are four different instructions\<close>

text \<open>
  C10. The four singleton constants bound at module initialization are values of four
  different variants: \<open>WAIT\<close> is \<open>Wait\<close>, \<open>RESET\<close> is \<open>Reset\<close>, \<open>NOP\<close> is \<open>Nop\<close>
  and \<open>HALT\<close> is \<open>Halt\<close>, and no two of the four are equal.
\<close>

theorem singletons_pairwise_distinct:
  "WAIT (module_init uq) = Wait \<and> RESET (module_init uq) = Reset \<and>
   NOP (module_init uq) = Nop \<and> HALT (module_init uq) = Halt \<and>
   distinct [WAIT (module_init uq), RESET (module_init uq),
             NOP (module_init uq), HALT (module_init uq)]"
  by (simp add: module_init_def)

end
